theory Spec2Isabelle
  imports
    Main
    "HOL-Library.RBT"
    "HOL-Library.List_Lexorder"
    "HOL-Library.Char_ord"
begin

section \<open>The C++ type \<open>double\<close>\<close>

text \<open>
  main.cpp computes with \<open>double\<close>: it stores rates, compares them with \<open>0.0\<close>, divides
  two of them and multiplies an amount by one. A \<open>double\<close> is an IEEE 754 binary64 value:
  a NaN, an infinity with a sign, or a finite value \<open>(-1)^s * m * 2^e\<close>, written
  \<open>Finite s m e\<close>. The values the arithmetic produces are in canonical form: \<open>m < 2^53\<close>
  and \<open>-1074 \<le> e \<le> 971\<close>, with \<open>2^52 \<le> m\<close> unless \<open>e = -1074\<close> (zero and the
  subnormal numbers). Zero carries a sign, as in the machine.
\<close>

datatype double = Finite bool int int | Infinity bool | NaN

text \<open>The number of binary digits of a positive integer.\<close>

function bit_length :: "int \<Rightarrow> int" where
  "bit_length n = (if n \<le> 0 then 0 else 1 + bit_length (n div 2))"
  by pat_completeness auto
termination
  by (relation "measure nat") auto

declare bit_length.simps [simp del]

definition scale2 :: "int \<Rightarrow> int \<Rightarrow> int" where
  "scale2 n k = n * 2 ^ nat k"

text \<open>\<open>floor_log2 n d\<close> is the largest \<open>k\<close> with \<open>2^k \<le> n / d\<close>, for positive \<open>n\<close> and \<open>d\<close>.\<close>

definition floor_log2 :: "int \<Rightarrow> int \<Rightarrow> int" where
  "floor_log2 n d =
     (let k = bit_length n - bit_length d
      in if (if 0 \<le> k then scale2 d k \<le> n else d \<le> scale2 n (- k)) then k else k - 1)"

text \<open>The integer nearest to \<open>num / den\<close>, the even one of the two when it is halfway.\<close>

definition round_nearest_even :: "int \<Rightarrow> int \<Rightarrow> int" where
  "round_nearest_even num den =
     (let q = num div den; r = num mod den
      in if den < 2 * r \<or> (2 * r = den \<and> odd q) then q + 1 else q)"

text \<open>
  Rounding to nearest, ties to even (the default rounding mode): the double nearest to the
  rational \<open>n / d\<close>, with \<open>0 \<le> n\<close> and \<open>0 < d\<close>, under the sign \<open>s\<close>. A result beyond the
  largest finite double is an infinity.
\<close>

definition round_double :: "bool \<Rightarrow> int \<Rightarrow> int \<Rightarrow> double" where
  "round_double s n d =
     (if n = 0 then Finite s 0 (- 1074)
      else
        let e = max (floor_log2 n d - 52) (- 1074);
            m = (if 0 \<le> e then round_nearest_even n (scale2 d e)
                 else round_nearest_even (scale2 n (- e)) d)
        in if m = 2 ^ 53 then (if 971 < e + 1 then Infinity s else Finite s (2 ^ 52) (e + 1))
           else (if 971 < e then Infinity s else Finite s m e))"

text \<open>A decimal literal of the source, such as \<open>0.92\<close>, is the double nearest to it.\<close>

definition literal :: "int \<Rightarrow> int \<Rightarrow> double" where
  "literal n d = round_double False n d"

text \<open>The value of a finite double as a signed integer multiple of \<open>2^k\<close>, for \<open>k \<le> e\<close>.\<close>

definition scaled :: "bool \<Rightarrow> int \<Rightarrow> int \<Rightarrow> int \<Rightarrow> int" where
  "scaled s m e k = (if s then - scale2 m (e - k) else scale2 m (e - k))"

text \<open>\<open>a < b\<close> and \<open>a <= b\<close> on doubles: false whenever an operand is a NaN.\<close>

fun dless :: "double \<Rightarrow> double \<Rightarrow> bool" where
  "dless NaN b = False"
| "dless a NaN = False"
| "dless (Infinity s) (Infinity t) = (s \<and> \<not> t)"
| "dless (Infinity s) (Finite t n f) = s"
| "dless (Finite s m e) (Infinity t) = (\<not> t)"
| "dless (Finite s m e) (Finite t n f) = (scaled s m e (min e f) < scaled t n f (min e f))"

fun dless_eq :: "double \<Rightarrow> double \<Rightarrow> bool" where
  "dless_eq NaN b = False"
| "dless_eq a NaN = False"
| "dless_eq (Infinity s) (Infinity t) = (s \<or> \<not> t)"
| "dless_eq (Infinity s) (Finite t n f) = s"
| "dless_eq (Finite s m e) (Infinity t) = (\<not> t)"
| "dless_eq (Finite s m e) (Finite t n f) = (scaled s m e (min e f) \<le> scaled t n f (min e f))"

text \<open>
  \<open>a * b\<close>: the exact product, rounded. Zero times an infinity is a NaN; the sign of any
  other result is the exclusive or of the operands' signs.
\<close>

fun dmul :: "double \<Rightarrow> double \<Rightarrow> double" where
  "dmul NaN b = NaN"
| "dmul a NaN = NaN"
| "dmul (Infinity s) (Infinity t) = Infinity (s \<noteq> t)"
| "dmul (Infinity s) (Finite t n f) = (if n = 0 then NaN else Infinity (s \<noteq> t))"
| "dmul (Finite s m e) (Infinity t) = (if m = 0 then NaN else Infinity (s \<noteq> t))"
| "dmul (Finite s m e) (Finite t n f) =
     (if 0 \<le> e + f then round_double (s \<noteq> t) (scale2 (m * n) (e + f)) 1
      else round_double (s \<noteq> t) (m * n) (scale2 1 (- (e + f))))"

text \<open>
  \<open>a / b\<close>: the exact quotient, rounded. A non-zero finite value divided by zero is an
  infinity, zero divided by zero and an infinity divided by an infinity are NaNs: a
  division of doubles raises no exception.
\<close>

fun ddiv :: "double \<Rightarrow> double \<Rightarrow> double" where
  "ddiv NaN b = NaN"
| "ddiv a NaN = NaN"
| "ddiv (Infinity s) (Infinity t) = NaN"
| "ddiv (Infinity s) (Finite t n f) = Infinity (s \<noteq> t)"
| "ddiv (Finite s m e) (Infinity t) = Finite (s \<noteq> t) 0 (- 1074)"
| "ddiv (Finite s m e) (Finite t n f) =
     (if n = 0 then (if m = 0 then NaN else Infinity (s \<noteq> t))
      else if 0 \<le> e - f then round_double (s \<noteq> t) (scale2 m (e - f)) n
      else round_double (s \<noteq> t) m (scale2 n (f - e)))"

text \<open>The classes of doubles the properties below speak of.\<close>

fun is_finite :: "double \<Rightarrow> bool" where
  "is_finite (Finite s m e) = True"
| "is_finite (Infinity s) = False"
| "is_finite NaN = False"

fun is_zero :: "double \<Rightarrow> bool" where
  "is_zero (Finite s m e) = (m = 0)"
| "is_zero (Infinity s) = False"
| "is_zero NaN = False"

fun sign_bit :: "double \<Rightarrow> bool" where
  "sign_bit (Finite s m e) = s"
| "sign_bit (Infinity s) = s"
| "sign_bit NaN = False"

section \<open>The rate provider and the converter of main.cpp\<close>

text \<open>
  Every failure of the program is a \<open>throw std::runtime_error(message)\<close>; the kinds of
  failure differ by their message only.
\<close>

datatype error = runtime_error string

definition UnsupportedCurrencyError :: error where
  "UnsupportedCurrencyError = runtime_error ''Unsupported currency code''"

definition InvalidRateError :: error where
  "InvalidRateError = runtime_error ''Rate must be positive''"

definition NegativeAmountError :: error where
  "NegativeAmountError = runtime_error ''Amount cannot be negative''"

definition UnsupportedOperationError :: error where
  "UnsupportedOperationError = runtime_error ''Custom rates not supported by this provider''"

text \<open>
  \<open>class StaticRateProvider\<close>: the base currency code and two \<open>std::map<std::string, double>\<close>,
  ordered search trees over the strings.
\<close>

record StaticRateProvider =
  baseCurrencyCode :: string
  baseRates :: "(string, double) rbt"
  customRates :: "(string, double) rbt"

definition makeKey :: "string \<Rightarrow> string \<Rightarrow> string" where
  "makeKey from to = from @ ''->'' @ to"

text \<open>
  The constructor: \<open>baseRates[baseCurrencyCode] = 1.0\<close> first, then the six assignments of the
  demo rates, in the order of the source.
\<close>

definition new_StaticRateProvider :: "string \<Rightarrow> StaticRateProvider" where
  "new_StaticRateProvider baseCode =
     \<lparr> baseCurrencyCode = baseCode,
       baseRates =
         RBT.insert ''CAD'' (literal 134 100)
          (RBT.insert ''AUD'' (literal 147 100)
            (RBT.insert ''JPY'' (literal 14150 100)
              (RBT.insert ''GBP'' (literal 79 100)
                (RBT.insert ''INR'' (literal 8310 100)
                  (RBT.insert ''EUR'' (literal 92 100)
                    (RBT.insert baseCode (literal 1 1) RBT.empty)))))),
       customRates = RBT.empty \<rparr>"

definition registerCurrency :: "string \<Rightarrow> double \<Rightarrow> StaticRateProvider \<Rightarrow> StaticRateProvider" where
  "registerCurrency code rateVsBase p = p\<lparr>baseRates := RBT.insert code rateVsBase (baseRates p)\<rparr>"

definition getSupportedCodes :: "StaticRateProvider \<Rightarrow> string list" where
  "getSupportedCodes p = RBT.keys (baseRates p)"

definition getRate :: "StaticRateProvider \<Rightarrow> string \<Rightarrow> string \<Rightarrow> error + double" where
  "getRate p from to =
     (if from = to then Inr (literal 1 1)
      else
        case RBT.lookup (customRates p) (makeKey from to) of
          Some customRate \<Rightarrow> Inr customRate
        | None \<Rightarrow>
            (case RBT.lookup (baseRates p) from of
               None \<Rightarrow> Inl UnsupportedCurrencyError
             | Some rateFrom \<Rightarrow>
                 (case RBT.lookup (baseRates p) to of
                    None \<Rightarrow> Inl UnsupportedCurrencyError
                  | Some rateTo \<Rightarrow> Inr (ddiv rateTo rateFrom))))"

text \<open>
  \<open>setCustomRate\<close> returns what the call gives its caller (an exception or nothing) and the
  provider as the call leaves it.
\<close>

definition setCustomRate ::
  "string \<Rightarrow> string \<Rightarrow> double \<Rightarrow> StaticRateProvider \<Rightarrow> (error + unit) \<times> StaticRateProvider" where
  "setCustomRate from to rate p =
     (if dless_eq rate (literal 0 1) then (Inl InvalidRateError, p)
      else (Inr (), p\<lparr>customRates := RBT.insert (makeKey from to) rate (customRates p)\<rparr>))"

text \<open>
  \<open>class ExchangeRateProvider\<close> is the interface the converter sees: a virtual \<open>getRate\<close>,
  and a \<open>setCustomRate\<close> that throws unless a subclass overrides it.
\<close>

type_synonym ExchangeRateProvider = "string \<Rightarrow> string \<Rightarrow> error + double"

definition ExchangeRateProvider_setCustomRate :: "string \<Rightarrow> string \<Rightarrow> double \<Rightarrow> error + unit" where
  "ExchangeRateProvider_setCustomRate from to rate = Inl UnsupportedOperationError"

text \<open>\<open>CurrencyConverter::convert\<close>, over the provider the converter refers to.\<close>

definition convert :: "ExchangeRateProvider \<Rightarrow> string \<Rightarrow> string \<Rightarrow> double \<Rightarrow> error + double" where
  "convert rateProvider from to amount =
     (if dless amount (literal 0 1) then Inl NegativeAmountError
      else
        case rateProvider from to of
          Inl e \<Rightarrow> Inl e
        | Inr rate \<Rightarrow> Inr (dmul amount rate))"

text \<open>
  \<open>getRate\<close> is virtual: behind the reference \<open>rateProvider\<close> may stand a provider whose
  \<open>getRate\<close> does more than return a value (it may log, cache or fetch). Such a provider has
  a state \<open>'s\<close> of its own, which a call of \<open>getRate\<close> may change, whether it returns or
  throws. \<open>CurrencyConverter_convert\<close> is \<open>CurrencyConverter::convert\<close> over such a provider:
  it returns what the call gives its caller and the provider's state as the call leaves it.
\<close>

type_synonym 's EffectfulProvider = "string \<Rightarrow> string \<Rightarrow> 's \<Rightarrow> (error + double) \<times> 's"

definition CurrencyConverter_convert ::
  "'s EffectfulProvider \<Rightarrow> string \<Rightarrow> string \<Rightarrow> double \<Rightarrow> 's \<Rightarrow> (error + double) \<times> 's" where
  "CurrencyConverter_convert rateProvider from to amount s =
     (if dless amount (literal 0 1) then (Inl NegativeAmountError, s)
      else
        case rateProvider from to s of
          (Inl e, s') \<Rightarrow> (Inl e, s')
        | (Inr rate, s') \<Rightarrow> (Inr (dmul amount rate), s'))"

text \<open>
  The calls a client can make on a provider, and the provider each of them leaves. The two
  \<open>const\<close> member functions leave it as it is; so does a \<open>setCustomRate\<close> that throws.
\<close>

datatype call =
    RegisterCurrency string double
  | SetCustomRate string string double
  | GetRate string string
  | GetSupportedCodes

fun after :: "StaticRateProvider \<Rightarrow> call \<Rightarrow> StaticRateProvider" where
  "after p (RegisterCurrency code rateVsBase) = registerCurrency code rateVsBase p"
| "after p (SetCustomRate from to rate) = snd (setCustomRate from to rate p)"
| "after p (GetRate from to) = p"
| "after p GetSupportedCodes = p"

definition after_all :: "StaticRateProvider \<Rightarrow> call list \<Rightarrow> StaticRateProvider" where
  "after_all p calls = foldl after p calls"

section \<open>Notions used to state the properties\<close>

text \<open>The codes among \<open>from\<close> and \<open>to\<close> that the rate table does not hold.\<close>

definition unknown_codes :: "StaticRateProvider \<Rightarrow> string \<Rightarrow> string \<Rightarrow> string list" where
  "unknown_codes p from to = filter (\<lambda>code. RBT.lookup (baseRates p) code = None) [from, to]"

text \<open>The six codes the constructor seeds besides the base.\<close>

definition seedCodes :: "string list" where
  "seedCodes = [''EUR'', ''INR'', ''GBP'', ''JPY'', ''AUD'', ''CAD'']"

text \<open>The rate table maps the provider's base currency code to \<open>1.0\<close>.\<close>

definition base_rate_is_one :: "StaticRateProvider \<Rightarrow> bool" where
  "base_rate_is_one p = (RBT.lookup (baseRates p) (baseCurrencyCode p) = Some (literal 1 1))"

text \<open>A call that does not register the base code \<open>base\<close> with a rate other than \<open>1.0\<close>.\<close>

fun keeps_base_rate :: "string \<Rightarrow> call \<Rightarrow> bool" where
  "keeps_base_rate base (RegisterCurrency code rateVsBase) = (code \<noteq> base \<or> rateVsBase = literal 1 1)"
| "keeps_base_rate base (SetCustomRate from to rate) = True"
| "keeps_base_rate base (GetRate from to) = True"
| "keeps_base_rate base GetSupportedCodes = True"

text \<open>
  A provider that answers as \<open>rateProvider\<close> does and records every call of its \<open>getRate\<close>:
  its state is the list of the pairs of codes it was asked for, in the order of the calls.
\<close>

definition logged :: "ExchangeRateProvider \<Rightarrow> (string \<times> string) list EffectfulProvider" where
  "logged rateProvider from to calls = (rateProvider from to, calls @ [(from, to)])"

text \<open>
  The provider of the application after \<open>registerCurrency("A", 1.0)\<close>,
  \<open>registerCurrency("B->C", 2.0)\<close> and \<open>setCustomRate("A->B", "C", 5.0)\<close>.
\<close>

definition aliased_override :: StaticRateProvider where
  "aliased_override =
     after_all (new_StaticRateProvider ''USD'')
       [RegisterCurrency ''A'' (literal 1 1), RegisterCurrency ''B->C'' (literal 2 1),
        SetCustomRate ''A->B'' ''C'' (literal 5 1)]"

text \<open>The provider of the application after \<open>setCustomRate("USD", "EUR", 0.95)\<close>.\<close>

definition USD_EUR_0_95 :: StaticRateProvider where
  "USD_EUR_0_95 = snd (setCustomRate ''USD'' ''EUR'' (literal 95 100) (new_StaticRateProvider ''USD''))"

section \<open>Facts about doubles\<close>

lemma literal_0: "literal 0 1 = Finite False 0 (- 1074)"
  by (simp add: literal_def round_double_def)

lemma literal_1: "literal 1 1 = Finite False 4503599627370496 (- 52)"
  by code_simp

lemma literal_2: "literal 2 1 = Finite False 4503599627370496 (- 51)"
  by code_simp

lemma literal_100: "literal 100 1 = Finite False 7036874417766400 (- 46)"
  by code_simp

lemma literal_0_92: "literal 92 100 = Finite False 8286623314361713 (- 53)"
  by code_simp

lemma literal_0_95: "literal 95 100 = Finite False 8556839292003942 (- 53)"
  by code_simp

lemma literal_5: "literal 5 1 = Finite False 5629499534213120 (- 50)"
  by code_simp

text \<open>\<open>2.0 / 1.0\<close> is \<open>2.0\<close>.\<close>

lemma ddiv_2_by_1:
  "ddiv (Finite False 4503599627370496 (- 51)) (Finite False 4503599627370496 (- 52)) =
     Finite False 4503599627370496 (- 51)"
  by code_simp

text \<open>\<open>0.92 / 1.0\<close> is \<open>0.92\<close>, and \<open>100.0 * 0.92\<close> is \<open>92.0\<close>.\<close>

lemma ddiv_0_92_by_1:
  "ddiv (Finite False 8286623314361713 (- 53)) (Finite False 4503599627370496 (- 52)) =
     Finite False 8286623314361713 (- 53)"
  by code_simp

lemma dmul_100_by_0_92:
  "dmul (Finite False 7036874417766400 (- 46)) (Finite False 8286623314361713 (- 53)) =
     Finite False 6473924464345088 (- 46)"
  by code_simp

text \<open>The comparisons with \<open>0.0\<close> that the source makes, by the class of the operand.\<close>

lemma dless_eq_zero_iff:
  "dless_eq r (literal 0 1) =
     (case r of Finite s m e \<Rightarrow> (if s then 0 \<le> m else m \<le> 0) | Infinity s \<Rightarrow> s | NaN \<Rightarrow> False)"
  by (cases r) (auto simp add: literal_0 scaled_def scale2_def zero_le_mult_iff mult_le_0_iff)

lemma dless_zero_iff:
  "dless (literal 0 1) r =
     (case r of Finite s m e \<Rightarrow> (if s then m < 0 else 0 < m) | Infinity s \<Rightarrow> \<not> s | NaN \<Rightarrow> False)"
  by (cases r) (auto simp add: literal_0 scaled_def scale2_def zero_less_mult_iff mult_less_0_iff)

lemma dless_than_zero_iff:
  "dless r (literal 0 1) =
     (case r of Finite s m e \<Rightarrow> (if s then 0 < m else m < 0) | Infinity s \<Rightarrow> s | NaN \<Rightarrow> False)"
  by (cases r) (auto simp add: literal_0 scaled_def scale2_def zero_less_mult_iff mult_less_0_iff)

lemma positive_not_dless_eq_zero: "dless (literal 0 1) r \<Longrightarrow> \<not> dless_eq r (literal 0 1)"
  by (cases r) (auto simp add: dless_eq_zero_iff dless_zero_iff)

lemma dmul_zero_Finite: "dmul (literal 0 1) (Finite s m e) = Finite s 0 (- 1074)"
  by (simp add: literal_0 scale2_def round_double_def)

lemma dmul_zero_finite:
  "is_finite rate \<Longrightarrow> dmul (literal 0 1) rate = Finite (sign_bit rate) 0 (- 1074)"
  by (cases rate) (simp_all add: dmul_zero_Finite del: dmul.simps)

section \<open>Facts about the provider\<close>

lemma lookup_new_USD:
  "RBT.lookup (baseRates (new_StaticRateProvider ''USD'')) =
     [''USD'' \<mapsto> literal 1 1, ''EUR'' \<mapsto> literal 92 100, ''INR'' \<mapsto> literal 8310 100,
      ''GBP'' \<mapsto> literal 79 100, ''JPY'' \<mapsto> literal 14150 100, ''AUD'' \<mapsto> literal 147 100,
      ''CAD'' \<mapsto> literal 134 100]"
  by (simp add: new_StaticRateProvider_def)

lemma customRates_new: "RBT.lookup (customRates (new_StaticRateProvider baseCode)) = Map.empty"
  by (simp add: new_StaticRateProvider_def)

lemma baseCurrencyCode_new: "baseCurrencyCode (new_StaticRateProvider baseCode) = baseCode"
  by (simp add: new_StaticRateProvider_def)

lemma base_rate_is_one_new:
  "baseCode \<notin> set seedCodes \<Longrightarrow> base_rate_is_one (new_StaticRateProvider baseCode)"
  by (simp add: base_rate_is_one_def new_StaticRateProvider_def seedCodes_def)

text \<open>
  Constructed with a base code that is one of the six seeded codes, the provider starts
  with the demo rate in the place of the base's \<open>1.0\<close>: the later assignment overwrites it.
\<close>

lemma base_rate_overwritten_by_seed: "\<not> base_rate_is_one (new_StaticRateProvider ''EUR'')"
  by (simp add: base_rate_is_one_def new_StaticRateProvider_def literal_1 literal_0_92)

lemma getRate_USD_EUR:
  "getRate (new_StaticRateProvider ''USD'') ''USD'' ''EUR'' = Inr (Finite False 8286623314361713 (- 53))"
  by (simp add: getRate_def lookup_new_USD customRates_new makeKey_def literal_0_92 literal_1
      ddiv_0_92_by_1 del: ddiv.simps)

lemma getRate_ZZZ_USD:
  "getRate (new_StaticRateProvider ''USD'') ''ZZZ'' ''USD'' = Inl UnsupportedCurrencyError"
  by (simp add: getRate_def lookup_new_USD customRates_new makeKey_def)

lemma getRate_USD_YYY:
  "getRate (new_StaticRateProvider ''USD'') ''USD'' ''YYY'' = Inl UnsupportedCurrencyError"
  by (simp add: getRate_def lookup_new_USD customRates_new makeKey_def)

lemma customRates_USD_EUR_0_95:
  "RBT.lookup (customRates USD_EUR_0_95) = [''USD->EUR'' \<mapsto> literal 95 100]"
  by (simp add: USD_EUR_0_95_def setCustomRate_def dless_eq_zero_iff literal_0_95 makeKey_def
      customRates_new)

text \<open>
  The quotient of two positive finite rates can exceed every finite double: with
  \<open>2^600\<close> registered for \<open>"HUGE"\<close> and \<open>2^-600\<close> for \<open>"TINY"\<close>, the rate from \<open>"TINY"\<close> to
  \<open>"HUGE"\<close> is an infinity.
\<close>

lemma ddiv_overflow:
  "ddiv (Finite False 4503599627370496 548) (Finite False 4503599627370496 (- 652)) = Infinity False"
  by code_simp

lemma getRate_overflow:
  "getRate
     (registerCurrency ''HUGE'' (Finite False 4503599627370496 548)
       (registerCurrency ''TINY'' (Finite False 4503599627370496 (- 652))
         (new_StaticRateProvider ''USD'')))
     ''TINY'' ''HUGE'' = Inr (Infinity False)"
  by (simp add: getRate_def registerCurrency_def customRates_new makeKey_def ddiv_overflow
      del: ddiv.simps)

text \<open>
  Where no override is stored under the key of a pair of distinct codes and the rate table
  holds both codes, \<open>getRate\<close> returns the quotient of the two rates.
\<close>

lemma getRate_triangulation:
  "from \<noteq> to \<Longrightarrow> RBT.lookup (customRates p) (makeKey from to) = None \<Longrightarrow>
   RBT.lookup (baseRates p) from = Some rateFrom \<Longrightarrow> RBT.lookup (baseRates p) to = Some rateTo \<Longrightarrow>
   getRate p from to = Inr (ddiv rateTo rateFrom)"
  by (simp add: getRate_def)

lemma getRate_triangulation_USD_EUR:
  "''USD'' \<noteq> ''EUR'' \<and>
   RBT.lookup (customRates (new_StaticRateProvider ''USD'')) (makeKey ''USD'' ''EUR'') = None \<and>
   RBT.lookup (baseRates (new_StaticRateProvider ''USD'')) ''USD'' = Some (literal 1 1) \<and>
   RBT.lookup (baseRates (new_StaticRateProvider ''USD'')) ''EUR'' = Some (literal 92 100) \<and>
   getRate (new_StaticRateProvider ''USD'') ''USD'' ''EUR'' = Inr (ddiv (literal 92 100) (literal 1 1))"
  using getRate_triangulation
    [of "''USD''" "''EUR''" "new_StaticRateProvider ''USD''" "literal 1 1" "literal 92 100"]
  by (simp add: lookup_new_USD customRates_new)

text \<open>
  For a provider without effect, the converter over it returns what \<open>convert\<close> returns,
  and the state is as it was.
\<close>

lemma CurrencyConverter_convert_without_effect:
  "CurrencyConverter_convert (\<lambda>from to s. (rateProvider from to, s)) from to amount s =
     (convert rateProvider from to amount, s)"
  by (simp add: CurrencyConverter_convert_def convert_def split: sum.split)

text \<open>An accepted override is what \<open>getRate\<close> returns for its pair of distinct codes.\<close>

lemma getRate_after_setCustomRate:
  "from \<noteq> to \<Longrightarrow> \<not> dless_eq rate (literal 0 1) \<Longrightarrow>
   getRate (snd (setCustomRate from to rate p)) from to = Inr rate"
  by (simp add: setCustomRate_def getRate_def)

text \<open>A pair whose key differs from the key of the override keeps its rate.\<close>

lemma getRate_other_key_unchanged:
  "makeKey from' to' \<noteq> makeKey from to \<Longrightarrow>
   getRate (snd (setCustomRate from to rate p)) from' to' = getRate p from' to'"
  by (cases "dless_eq rate (literal 0 1)")
    (simp_all add: setCustomRate_def getRate_def split: option.split)

text \<open>The key does not determine the pair: two different pairs, one key.\<close>

lemma makeKey_not_injective:
  "makeKey ''A->B'' ''C'' = makeKey ''A'' ''B->C'' \<and> makeKey ''->'' ''->->'' = makeKey ''->->'' ''->''"
  by (simp add: makeKey_def)

text \<open>Each call keeps the base code, and an admitted call keeps its rate of \<open>1.0\<close>.\<close>

lemma baseCurrencyCode_after: "baseCurrencyCode (after p c) = baseCurrencyCode p"
  by (cases c) (simp_all add: registerCurrency_def setCustomRate_def)

lemma base_rate_is_one_after:
  "base_rate_is_one p \<Longrightarrow> keeps_base_rate (baseCurrencyCode p) c \<Longrightarrow> base_rate_is_one (after p c)"
  by (cases c) (auto simp add: base_rate_is_one_def registerCurrency_def setCustomRate_def)

lemma base_rate_is_one_foldl:
  "base_rate_is_one p \<Longrightarrow> list_all (keeps_base_rate (baseCurrencyCode p)) calls \<Longrightarrow>
   base_rate_is_one (foldl after p calls)"
proof (induction calls arbitrary: p)
  case Nil
  then show ?case by simp
next
  case (Cons c calls)
  from Cons.prems have "base_rate_is_one (after p c)"
    by (simp add: base_rate_is_one_after)
  moreover from Cons.prems
  have "list_all (keeps_base_rate (baseCurrencyCode (after p c))) calls"
    by (simp add: baseCurrencyCode_after)
  ultimately show ?case
    using Cons.IH [of "after p c"] by simp
qed

section \<open>The properties\<close>

text \<open>
  Claim C1. For every code \<open>X\<close> and every provider, \<open>getRate(X, X)\<close> returns exactly \<open>1.0\<close>
  and does not fail, whether or not \<open>X\<close> is in the rate table and whatever override is
  stored under the key of the pair \<open>(X, X)\<close>.
\<close>

theorem getRate_identity: "getRate p X X = Inr (literal 1 1)"
  by (simp add: getRate_def)

text \<open>
  At \<open>X = "ZZZ"\<close>, which the rate table does not hold, after the override
  \<open>setCustomRate("ZZZ", "ZZZ", 2.0)\<close>.
\<close>

theorem getRate_identity_witness:
  "RBT.lookup (baseRates (snd (setCustomRate ''ZZZ'' ''ZZZ'' (literal 2 1) (new_StaticRateProvider ''USD''))))
     ''ZZZ'' = None \<and>
   RBT.lookup (customRates (snd (setCustomRate ''ZZZ'' ''ZZZ'' (literal 2 1) (new_StaticRateProvider ''USD''))))
     (makeKey ''ZZZ'' ''ZZZ'') = Some (literal 2 1) \<and>
   literal 2 1 \<noteq> literal 1 1 \<and>
   getRate (snd (setCustomRate ''ZZZ'' ''ZZZ'' (literal 2 1) (new_StaticRateProvider ''USD'')))
     ''ZZZ'' ''ZZZ'' = Inr (literal 1 1)"
proof -
  have "\<not> dless_eq (literal 2 1) (literal 0 1)"
    by (simp add: dless_eq_zero_iff literal_2)
  then show ?thesis
    using getRate_identity
      [of "snd (setCustomRate ''ZZZ'' ''ZZZ'' (literal 2 1) (new_StaticRateProvider ''USD''))" "''ZZZ''"]
    by (simp add: setCustomRate_def lookup_new_USD literal_1 literal_2)
qed

text \<open>
  Claim C2. For distinct codes \<open>A\<close> and \<open>B\<close> and a rate \<open>r > 0\<close>, after
  \<open>setCustomRate(A, B, r)\<close> the call \<open>getRate(A, B)\<close> returns \<open>r\<close>, and \<open>getRate(B, A)\<close>
  returns what it returned before. The first half is \<open>getRate_after_setCustomRate\<close>. The
  second half fails where the two pairs share a key: \<open>makeKey("->", "->->")\<close> and
  \<open>makeKey("->->", "->")\<close> are both \<open>"->->->->"\<close>, so that in the provider of the
  application \<open>setCustomRate("->", "->->", 2.0)\<close> succeeds and turns \<open>getRate("->->", "->")\<close>
  from the failure "Unsupported currency code" into \<open>2.0\<close>, with no override set for the
  reverse pair.
\<close>

theorem setCustomRate_changes_reverse_pair:
  "''->'' \<noteq> ''->->'' \<and>
   dless (literal 0 1) (literal 2 1) \<and>
   fst (setCustomRate ''->'' ''->->'' (literal 2 1) (new_StaticRateProvider ''USD'')) = Inr () \<and>
   getRate (new_StaticRateProvider ''USD'') ''->->'' ''->'' = Inl UnsupportedCurrencyError \<and>
   getRate (snd (setCustomRate ''->'' ''->->'' (literal 2 1) (new_StaticRateProvider ''USD'')))
     ''->->'' ''->'' = Inr (literal 2 1)"
  by (simp add: setCustomRate_def getRate_def lookup_new_USD customRates_new makeKey_def
      dless_eq_zero_iff dless_zero_iff literal_2)

text \<open>
  Claim C3. For distinct codes \<open>from\<close> and \<open>to\<close>, when no override exists for the ordered
  pair \<open>(from, to)\<close> and the rate table holds both codes, \<open>getRate(from, to)\<close> returns
  \<open>rateTable[to] / rateTable[from]\<close>. It does where no override is stored under the key of
  the pair (\<open>getRate_triangulation\<close>), and fails where the override of another pair has the
  same key: after \<open>registerCurrency("A", 1.0)\<close>, \<open>registerCurrency("B->C", 2.0)\<close> and
  \<open>setCustomRate("A->B", "C", 5.0)\<close>, the only override set is for the pair
  \<open>("A->B", "C")\<close>, the rate table holds \<open>"A"\<close> at \<open>1.0\<close> and \<open>"B->C"\<close> at \<open>2.0\<close>, and
  \<open>getRate("A", "B->C")\<close> returns \<open>5.0\<close>, not the quotient \<open>2.0\<close> that it returned before
  the override.
\<close>

theorem getRate_triangulation_bypassed_by_alias:
  "''A'' \<noteq> ''B->C'' \<and>
   (''A->B'', ''C'') \<noteq> (''A'', ''B->C'') \<and>
   aliased_override =
     snd (setCustomRate ''A->B'' ''C'' (literal 5 1)
       (registerCurrency ''B->C'' (literal 2 1)
         (registerCurrency ''A'' (literal 1 1) (new_StaticRateProvider ''USD'')))) \<and>
   fst (setCustomRate ''A->B'' ''C'' (literal 5 1)
       (registerCurrency ''B->C'' (literal 2 1)
         (registerCurrency ''A'' (literal 1 1) (new_StaticRateProvider ''USD'')))) = Inr () \<and>
   RBT.lookup (baseRates aliased_override) ''A'' = Some (literal 1 1) \<and>
   RBT.lookup (baseRates aliased_override) ''B->C'' = Some (literal 2 1) \<and>
   ddiv (literal 2 1) (literal 1 1) = literal 2 1 \<and>
   getRate
     (registerCurrency ''B->C'' (literal 2 1)
       (registerCurrency ''A'' (literal 1 1) (new_StaticRateProvider ''USD'')))
     ''A'' ''B->C'' = Inr (literal 2 1) \<and>
   getRate aliased_override ''A'' ''B->C'' = Inr (literal 5 1) \<and>
   literal 5 1 \<noteq> literal 2 1"
proof -
  let ?q = "registerCurrency ''B->C'' (literal 2 1)
       (registerCurrency ''A'' (literal 1 1) (new_StaticRateProvider ''USD''))"
  have accepted: "\<not> dless_eq (literal 5 1) (literal 0 1)"
    by (simp add: dless_eq_zero_iff literal_5)
  have state: "aliased_override = snd (setCustomRate ''A->B'' ''C'' (literal 5 1) ?q)"
    by (simp add: aliased_override_def after_all_def)
  have success: "fst (setCustomRate ''A->B'' ''C'' (literal 5 1) ?q) = Inr ()"
    using accepted by (simp add: setCustomRate_def)
  have table: "RBT.lookup (baseRates aliased_override) ''A'' = Some (literal 1 1)"
      "RBT.lookup (baseRates aliased_override) ''B->C'' = Some (literal 2 1)"
    using accepted by (simp_all add: state setCustomRate_def registerCurrency_def)
  have quotient: "ddiv (literal 2 1) (literal 1 1) = literal 2 1"
    by (simp only: literal_1 literal_2 ddiv_2_by_1)
  have before: "getRate ?q ''A'' ''B->C'' = Inr (literal 2 1)"
    by (simp add: getRate_def registerCurrency_def customRates_new makeKey_def quotient
        del: ddiv.simps)
  have after: "getRate aliased_override ''A'' ''B->C'' = Inr (literal 5 1)"
    using accepted by (simp add: state setCustomRate_def getRate_def makeKey_def)
  have differ: "literal 5 1 \<noteq> literal 2 1"
    by (simp add: literal_5 literal_2)
  from state success table quotient before after differ show ?thesis
    by simp
qed

text \<open>
  Claim C4, as stated: for distinct codes, no override under the key of the pair and a
  code that the rate table does not hold, \<open>getRate\<close> fails with an error that names which
  of the two codes are unknown. It does not: the error is the same for the unknown
  \<open>"ZZZ"\<close> of \<open>getRate("ZZZ", "USD")\<close> and for the unknown \<open>"YYY"\<close> of
  \<open>getRate("USD", "YYY")\<close>, so that no reading \<open>named\<close> of the error gives the unknown codes.
\<close>

theorem unsupported_error_names_no_code:
  "\<not> (\<exists>named :: error \<Rightarrow> string list.
        \<forall>p from to.
          from \<noteq> to \<and> RBT.lookup (customRates p) (makeKey from to) = None \<and>
          unknown_codes p from to \<noteq> [] \<longrightarrow>
          (\<exists>e. getRate p from to = Inl e \<and> named e = unknown_codes p from to))"
proof
  assume "\<exists>named :: error \<Rightarrow> string list.
        \<forall>p from to.
          from \<noteq> to \<and> RBT.lookup (customRates p) (makeKey from to) = None \<and>
          unknown_codes p from to \<noteq> [] \<longrightarrow>
          (\<exists>e. getRate p from to = Inl e \<and> named e = unknown_codes p from to)"
  then obtain named :: "error \<Rightarrow> string list" where named:
    "\<And>p from to. from \<noteq> to \<Longrightarrow> RBT.lookup (customRates p) (makeKey from to) = None \<Longrightarrow>
       unknown_codes p from to \<noteq> [] \<Longrightarrow>
       \<exists>e. getRate p from to = Inl e \<and> named e = unknown_codes p from to"
    by blast
  let ?p = "new_StaticRateProvider ''USD''"
  have "unknown_codes ?p ''ZZZ'' ''USD'' = [''ZZZ'']"
    by (simp add: unknown_codes_def lookup_new_USD)
  with named [of "''ZZZ''" "''USD''" ?p] have ZZZ: "named UnsupportedCurrencyError = [''ZZZ'']"
    by (simp add: customRates_new getRate_ZZZ_USD)
  have "unknown_codes ?p ''USD'' ''YYY'' = [''YYY'']"
    by (simp add: unknown_codes_def lookup_new_USD)
  with named [of "''USD''" "''YYY''" ?p] have YYY: "named UnsupportedCurrencyError = [''YYY'']"
    by (simp add: customRates_new getRate_USD_YYY)
  from ZZZ YYY show False by simp
qed

text \<open>
  Claim C4, amended: for distinct codes \<open>from\<close> and \<open>to\<close>, when no override is stored under
  the key of the pair and the rate table does not hold one of the codes, \<open>getRate(from, to)\<close>
  fails with the runtime error of the fixed message "Unsupported currency code", which
  names no code.
\<close>

theorem getRate_unsupported:
  "from \<noteq> to \<Longrightarrow> RBT.lookup (customRates p) (makeKey from to) = None \<Longrightarrow>
   RBT.lookup (baseRates p) from = None \<or> RBT.lookup (baseRates p) to = None \<Longrightarrow>
   getRate p from to = Inl (runtime_error ''Unsupported currency code'')"
  by (auto simp add: getRate_def UnsupportedCurrencyError_def split: option.splits)

theorem getRate_unsupported_witness:
  "''ZZZ'' \<noteq> ''USD'' \<and>
   RBT.lookup (customRates (new_StaticRateProvider ''USD'')) (makeKey ''ZZZ'' ''USD'') = None \<and>
   RBT.lookup (baseRates (new_StaticRateProvider ''USD'')) ''ZZZ'' = None \<and>
   RBT.lookup (baseRates (new_StaticRateProvider ''USD'')) ''USD'' = Some (literal 1 1) \<and>
   getRate (new_StaticRateProvider ''USD'') ''ZZZ'' ''USD'' = Inl (runtime_error ''Unsupported currency code'')"
  using getRate_unsupported [of "''ZZZ''" "''USD''" "new_StaticRateProvider ''USD''"]
  by (simp add: lookup_new_USD customRates_new)

text \<open>
  Claim C5. \<open>setCustomRate(A, B, r)\<close> fails, with the error "Rate must be positive", if and
  only if \<open>r <= 0\<close>; the failed call leaves the provider, and so the override table and any
  override stored for the same pair, as it was. When \<open>r > 0\<close> the call succeeds and the
  override table holds \<open>r\<close> under the key of \<open>(A, B)\<close>, its other entries as before.
\<close>

theorem setCustomRate_rejects_nonpositive:
  "(fst (setCustomRate from to rate p) = Inl InvalidRateError) = dless_eq rate (literal 0 1) \<and>
   (fst (setCustomRate from to rate p) = Inr ()) = (\<not> dless_eq rate (literal 0 1)) \<and>
   (dless_eq rate (literal 0 1) \<longrightarrow> snd (setCustomRate from to rate p) = p) \<and>
   (dless (literal 0 1) rate \<longrightarrow>
      fst (setCustomRate from to rate p) = Inr () \<and>
      RBT.lookup (customRates (snd (setCustomRate from to rate p))) =
        (RBT.lookup (customRates p))(makeKey from to \<mapsto> rate) \<and>
      baseRates (snd (setCustomRate from to rate p)) = baseRates p \<and>
      baseCurrencyCode (snd (setCustomRate from to rate p)) = baseCurrencyCode p)"
  using positive_not_dless_eq_zero [of rate] by (simp add: setCustomRate_def)

text \<open>
  On the provider that holds the override \<open>0.95\<close> for \<open>("USD", "EUR")\<close>: the rates \<open>0.0\<close>
  and \<open>-5.0\<close> are refused and the override stays, the rate \<open>2.0\<close> replaces it.
\<close>

theorem setCustomRate_rejects_nonpositive_witness:
  "dless_eq (literal 0 1) (literal 0 1) \<and>
   setCustomRate ''USD'' ''EUR'' (literal 0 1) USD_EUR_0_95 = (Inl InvalidRateError, USD_EUR_0_95) \<and>
   dless_eq (Finite True 5629499534213120 (- 50)) (literal 0 1) \<and>
   setCustomRate ''USD'' ''EUR'' (Finite True 5629499534213120 (- 50)) USD_EUR_0_95 =
     (Inl InvalidRateError, USD_EUR_0_95) \<and>
   RBT.lookup (customRates USD_EUR_0_95) ''USD->EUR'' = Some (literal 95 100) \<and>
   dless (literal 0 1) (literal 2 1) \<and>
   fst (setCustomRate ''USD'' ''EUR'' (literal 2 1) USD_EUR_0_95) = Inr () \<and>
   RBT.lookup (customRates (snd (setCustomRate ''USD'' ''EUR'' (literal 2 1) USD_EUR_0_95))) ''USD->EUR''
     = Some (literal 2 1)"
proof -
  have zero: "dless_eq (literal 0 1) (literal 0 1)"
    by (simp add: dless_eq_zero_iff literal_0)
  have minus_five: "dless_eq (Finite True 5629499534213120 (- 50)) (literal 0 1)"
    by (simp add: dless_eq_zero_iff)
  have two: "dless (literal 0 1) (literal 2 1)"
    by (simp add: dless_zero_iff literal_2)
  show ?thesis
    using setCustomRate_rejects_nonpositive [of "''USD''" "''EUR''" "literal 0 1" USD_EUR_0_95]
      setCustomRate_rejects_nonpositive
        [of "''USD''" "''EUR''" "Finite True 5629499534213120 (- 50)" USD_EUR_0_95]
      setCustomRate_rejects_nonpositive [of "''USD''" "''EUR''" "literal 2 1" USD_EUR_0_95]
    by (simp add: zero minus_five two customRates_USD_EUR_0_95 makeKey_def prod_eq_iff)
qed

text \<open>
  Claim C6. For distinct codes \<open>A\<close> and \<open>B\<close> that the rate table does not hold, and a rate
  \<open>r > 0\<close>, \<open>setCustomRate(A, B, r)\<close> succeeds (it does not look at the rate table), and
  \<open>getRate(A, B)\<close> then returns \<open>r\<close> instead of failing.
\<close>

theorem override_for_unknown_codes:
  "from \<noteq> to \<Longrightarrow> RBT.lookup (baseRates p) from = None \<Longrightarrow> RBT.lookup (baseRates p) to = None \<Longrightarrow>
   dless (literal 0 1) rate \<Longrightarrow>
   fst (setCustomRate from to rate p) = Inr () \<and>
   getRate (snd (setCustomRate from to rate p)) from to = Inr rate"
  using positive_not_dless_eq_zero [of rate] by (simp add: setCustomRate_def getRate_def)

theorem override_for_unknown_codes_witness:
  "''ABC'' \<noteq> ''XYZ'' \<and>
   RBT.lookup (baseRates (new_StaticRateProvider ''USD'')) ''ABC'' = None \<and>
   RBT.lookup (baseRates (new_StaticRateProvider ''USD'')) ''XYZ'' = None \<and>
   dless (literal 0 1) (literal 2 1) \<and>
   getRate (new_StaticRateProvider ''USD'') ''ABC'' ''XYZ'' = Inl UnsupportedCurrencyError \<and>
   fst (setCustomRate ''ABC'' ''XYZ'' (literal 2 1) (new_StaticRateProvider ''USD'')) = Inr () \<and>
   getRate (snd (setCustomRate ''ABC'' ''XYZ'' (literal 2 1) (new_StaticRateProvider ''USD'')))
     ''ABC'' ''XYZ'' = Inr (literal 2 1)"
  using override_for_unknown_codes
    [of "''ABC''" "''XYZ''" "new_StaticRateProvider ''USD''" "literal 2 1"]
  by (simp add: lookup_new_USD customRates_new dless_zero_iff literal_2 getRate_def makeKey_def)

text \<open>
  Claim C7, as stated, ends: \<open>convert(A, B, 0.0)\<close> returns exactly \<open>0.0\<close> whenever
  \<open>getRate(A, B)\<close> succeeds. After \<open>registerCurrency("XXX", 0.0)\<close> on the provider of the
  application, \<open>getRate("XXX", "USD")\<close> succeeds with \<open>1.0 / 0.0\<close>, an infinity, and
  \<open>convert("XXX", "USD", 0.0)\<close> returns \<open>0.0\<close> times that infinity, a NaN.
\<close>

theorem convert_zero_amount_not_zero:
  "getRate (registerCurrency ''XXX'' (literal 0 1) (new_StaticRateProvider ''USD'')) ''XXX'' ''USD''
     = Inr (Infinity False) \<and>
   convert (getRate (registerCurrency ''XXX'' (literal 0 1) (new_StaticRateProvider ''USD'')))
     ''XXX'' ''USD'' (literal 0 1) = Inr NaN \<and>
   convert (getRate (registerCurrency ''XXX'' (literal 0 1) (new_StaticRateProvider ''USD'')))
     ''XXX'' ''USD'' (literal 0 1) \<noteq> Inr (literal 0 1)"
proof -
  let ?p = "registerCurrency ''XXX'' (literal 0 1) (new_StaticRateProvider ''USD'')"
  have rate: "getRate ?p ''XXX'' ''USD'' = Inr (Infinity False)"
    by (simp add: getRate_def registerCurrency_def lookup_new_USD customRates_new makeKey_def
        literal_0 literal_1)
  have "\<not> dless (literal 0 1) (literal 0 1)"
    by (simp add: dless_zero_iff literal_0)
  then have "convert (getRate ?p) ''XXX'' ''USD'' (literal 0 1) = Inr NaN"
    by (simp add: convert_def rate) (simp add: literal_0)
  with rate show ?thesis
    by (simp add: literal_0)
qed

text \<open>
  Claim C7, amended: \<open>convert(A, B, amount)\<close> fails with the error "Amount cannot be
  negative" if \<open>amount < 0\<close>; otherwise it passes on the failure of the provider's
  \<open>getRate(A, B)\<close> unchanged, or returns \<open>amount * rate\<close> for the rate that \<open>getRate\<close>
  returns. When that rate is finite, \<open>convert(A, B, 0.0)\<close> returns a zero with the sign of
  the rate: exactly \<open>0.0\<close> for a rate that is not negative.
\<close>

theorem convert_amount_times_rate:
  "(dless amount (literal 0 1) \<longrightarrow> convert rateProvider from to amount = Inl NegativeAmountError) \<and>
   (\<not> dless amount (literal 0 1) \<longrightarrow>
      convert rateProvider from to amount =
        (case rateProvider from to of Inl e \<Rightarrow> Inl e | Inr rate \<Rightarrow> Inr (dmul amount rate))) \<and>
   (rateProvider from to = Inr rate \<and> is_finite rate \<longrightarrow>
      convert rateProvider from to (literal 0 1) = Inr (Finite (sign_bit rate) 0 (- 1074)))"
proof -
  have "\<not> dless (literal 0 1) (literal 0 1)"
    by (simp add: dless_zero_iff literal_0)
  then show ?thesis
    by (simp add: convert_def dmul_zero_finite)
qed

text \<open>
  On the provider of the application: \<open>convert("USD", "EUR", -1.0)\<close> fails,
  \<open>convert("USD", "EUR", 100.0)\<close> is \<open>92.0\<close>, \<open>convert("ZZZ", "USD", 100.0)\<close> fails as
  \<open>getRate\<close> does, and \<open>convert("USD", "EUR", 0.0)\<close> is \<open>0.0\<close>.
\<close>

theorem convert_amount_times_rate_witness:
  "dless (Finite True 4503599627370496 (- 52)) (literal 0 1) \<and>
   convert (getRate (new_StaticRateProvider ''USD'')) ''USD'' ''EUR'' (Finite True 4503599627370496 (- 52))
     = Inl NegativeAmountError \<and>
   \<not> dless (literal 100 1) (literal 0 1) \<and>
   getRate (new_StaticRateProvider ''USD'') ''USD'' ''EUR'' = Inr (Finite False 8286623314361713 (- 53)) \<and>
   convert (getRate (new_StaticRateProvider ''USD'')) ''USD'' ''EUR'' (literal 100 1)
     = Inr (Finite False 6473924464345088 (- 46)) \<and>
   getRate (new_StaticRateProvider ''USD'') ''ZZZ'' ''USD'' = Inl UnsupportedCurrencyError \<and>
   convert (getRate (new_StaticRateProvider ''USD'')) ''ZZZ'' ''USD'' (literal 100 1)
     = Inl UnsupportedCurrencyError \<and>
   is_finite (Finite False 8286623314361713 (- 53)) \<and>
   convert (getRate (new_StaticRateProvider ''USD'')) ''USD'' ''EUR'' (literal 0 1) = Inr (literal 0 1)"
proof -
  let ?g = "getRate (new_StaticRateProvider ''USD'')"
  have minus_one: "dless (Finite True 4503599627370496 (- 52)) (literal 0 1)"
    by (simp add: dless_than_zero_iff)
  have hundred: "\<not> dless (literal 100 1) (literal 0 1)"
    by (simp add: dless_than_zero_iff literal_100)
  have product: "dmul (literal 100 1) (Finite False 8286623314361713 (- 53)) =
      Finite False 6473924464345088 (- 46)"
    by (simp only: literal_100 dmul_100_by_0_92)
  note rate = getRate_USD_EUR
  have negative: "convert ?g ''USD'' ''EUR'' (Finite True 4503599627370496 (- 52)) = Inl NegativeAmountError"
    using convert_amount_times_rate
        [of "Finite True 4503599627370496 (- 52)" ?g "''USD''" "''EUR''"
          "Finite False 8286623314361713 (- 53)"] minus_one
    by simp
  have positive: "convert ?g ''USD'' ''EUR'' (literal 100 1) = Inr (Finite False 6473924464345088 (- 46))"
    using convert_amount_times_rate
        [of "literal 100 1" ?g "''USD''" "''EUR''" "Finite False 8286623314361713 (- 53)"]
      hundred
    by (simp add: rate product del: dmul.simps)
  have unsupported: "convert ?g ''ZZZ'' ''USD'' (literal 100 1) = Inl UnsupportedCurrencyError"
    using convert_amount_times_rate
        [of "literal 100 1" ?g "''ZZZ''" "''USD''" "Finite False 8286623314361713 (- 53)"]
      hundred
    by (simp add: getRate_ZZZ_USD)
  have zero: "convert ?g ''USD'' ''EUR'' (literal 0 1) = Inr (literal 0 1)"
    using convert_amount_times_rate
        [of "literal 100 1" ?g "''USD''" "''EUR''" "Finite False 8286623314361713 (- 53)"]
    by (simp add: rate literal_0)
  from minus_one negative hundred rate positive unsupported zero show ?thesis
    by (simp add: getRate_ZZZ_USD)
qed

text \<open>
  Claim C8, as stated: in every provider reached from the initial one by calls of
  \<open>registerCurrency\<close>, \<open>setCustomRate\<close>, \<open>getRate\<close> and \<open>getSupportedCodes\<close>, the rate table
  maps the base currency code to \<open>1.0\<close>. The call \<open>registerCurrency("USD", 2.0)\<close> on the
  provider of the application leaves the base \<open>"USD"\<close> at \<open>2.0\<close>.
\<close>

theorem base_rate_overwritten_by_registerCurrency:
  "\<not> base_rate_is_one
       (after_all (new_StaticRateProvider ''USD'') [RegisterCurrency ''USD'' (literal 2 1)])"
  by (simp add: after_all_def base_rate_is_one_def registerCurrency_def baseCurrencyCode_new
      literal_1 literal_2)

text \<open>
  Claim C8, amended: a provider constructed with a base code other than the six seeded
  codes maps its base code to \<open>1.0\<close>, and so does every provider reached from it by calls
  of \<open>registerCurrency\<close>, \<open>setCustomRate\<close>, \<open>getRate\<close> and \<open>getSupportedCodes\<close> among which
  no \<open>registerCurrency\<close> gives the base code a rate other than \<open>1.0\<close>.
\<close>

theorem base_rate_invariant:
  "baseCode \<notin> set seedCodes \<Longrightarrow> list_all (keeps_base_rate baseCode) calls \<Longrightarrow>
   base_rate_is_one (after_all (new_StaticRateProvider baseCode) calls)"
  using base_rate_is_one_foldl [of "new_StaticRateProvider baseCode" calls]
  by (simp add: after_all_def base_rate_is_one_new baseCurrencyCode_new)

theorem base_rate_invariant_witness:
  "''USD'' \<notin> set seedCodes \<and>
   list_all (keeps_base_rate ''USD'')
     [RegisterCurrency ''CHF'' (literal 88 100), SetCustomRate ''USD'' ''EUR'' (literal 95 100),
      GetRate ''USD'' ''EUR'', GetSupportedCodes, RegisterCurrency ''USD'' (literal 1 1),
      SetCustomRate ''USD'' ''EUR'' (literal 0 1)] \<and>
   base_rate_is_one
     (after_all (new_StaticRateProvider ''USD'')
       [RegisterCurrency ''CHF'' (literal 88 100), SetCustomRate ''USD'' ''EUR'' (literal 95 100),
        GetRate ''USD'' ''EUR'', GetSupportedCodes, RegisterCurrency ''USD'' (literal 1 1),
        SetCustomRate ''USD'' ''EUR'' (literal 0 1)])"
  using base_rate_invariant
    [of "''USD''"
      "[RegisterCurrency ''CHF'' (literal 88 100), SetCustomRate ''USD'' ''EUR'' (literal 95 100),
        GetRate ''USD'' ''EUR'', GetSupportedCodes, RegisterCurrency ''USD'' (literal 1 1),
        SetCustomRate ''USD'' ''EUR'' (literal 0 1)]"]
  by (simp add: seedCodes_def)

text \<open>
  Claim C9. Overrides are stored under the string \<open>from + "->" + to\<close>, and two different
  pairs of codes can share it: whatever the provider, an accepted
  \<open>setCustomRate("A->B", "C", r)\<close> makes \<open>getRate("A", "B->C")\<close> return \<open>r\<close>.
\<close>

theorem override_key_aliasing:
  "(''A'', ''B->C'') \<noteq> (''A->B'', ''C'') \<and>
   (\<not> dless_eq rate (literal 0 1) \<longrightarrow>
      getRate (snd (setCustomRate ''A->B'' ''C'' rate p)) ''A'' ''B->C'' = Inr rate)"
  by (simp add: setCustomRate_def getRate_def makeKey_def)

theorem override_key_aliasing_witness:
  "\<not> dless_eq (literal 2 1) (literal 0 1) \<and>
   getRate (new_StaticRateProvider ''USD'') ''A'' ''B->C'' = Inl UnsupportedCurrencyError \<and>
   getRate (snd (setCustomRate ''A->B'' ''C'' (literal 2 1) (new_StaticRateProvider ''USD''))) ''A'' ''B->C''
     = Inr (literal 2 1)"
  using override_key_aliasing [of "literal 2 1" "new_StaticRateProvider ''USD''"]
  by (simp add: dless_eq_zero_iff literal_2 getRate_def lookup_new_USD customRates_new makeKey_def)

text \<open>
  Claim C10. \<open>convert\<close> tests the amount before it asks the provider: for \<open>amount < 0\<close> it
  fails with the error "Amount cannot be negative" and never calls \<open>getRate\<close>. Whatever
  effect the provider's \<open>getRate\<close> has on the provider's state, the state is after the
  failed \<open>convert\<close> what it was before; and the failure is that of the amount whatever
  \<open>getRate\<close> would return or throw for the two codes.
\<close>

theorem convert_negative_amount_first:
  "dless amount (literal 0 1) \<Longrightarrow>
   CurrencyConverter_convert effectfulProvider from to amount s = (Inl NegativeAmountError, s) \<and>
   convert rateProvider from to amount = Inl NegativeAmountError"
  by (simp add: CurrencyConverter_convert_def convert_def)

text \<open>
  At \<open>amount = -1.0\<close> and the unsupported code \<open>"ZZZ"\<close>, over the provider of the
  application with its calls of \<open>getRate\<close> recorded: the record stays empty. At the amount
  \<open>100.0\<close> the same converter calls \<open>getRate\<close> once, and the record shows it.
\<close>

theorem convert_negative_amount_first_witness:
  "dless (Finite True 4503599627370496 (- 52)) (literal 0 1) \<and>
   getRate (new_StaticRateProvider ''USD'') ''ZZZ'' ''USD'' = Inl UnsupportedCurrencyError \<and>
   CurrencyConverter_convert (logged (getRate (new_StaticRateProvider ''USD''))) ''ZZZ'' ''USD''
     (Finite True 4503599627370496 (- 52)) [] = (Inl NegativeAmountError, []) \<and>
   convert (getRate (new_StaticRateProvider ''USD'')) ''ZZZ'' ''USD'' (Finite True 4503599627370496 (- 52))
     = Inl NegativeAmountError \<and>
   CurrencyConverter_convert (logged (getRate (new_StaticRateProvider ''USD''))) ''ZZZ'' ''USD''
     (literal 100 1) [] = (Inl UnsupportedCurrencyError, [(''ZZZ'', ''USD'')])"
proof -
  have minus_one: "dless (Finite True 4503599627370496 (- 52)) (literal 0 1)"
    by (simp add: dless_than_zero_iff)
  have hundred: "\<not> dless (literal 100 1) (literal 0 1)"
    by (simp add: dless_than_zero_iff literal_100)
  have called: "CurrencyConverter_convert (logged (getRate (new_StaticRateProvider ''USD'')))
      ''ZZZ'' ''USD'' (literal 100 1) [] = (Inl UnsupportedCurrencyError, [(''ZZZ'', ''USD'')])"
    using hundred by (simp add: CurrencyConverter_convert_def logged_def getRate_ZZZ_USD)
  from minus_one called show ?thesis
    using convert_negative_amount_first
      [of "Finite True 4503599627370496 (- 52)"
        "logged (getRate (new_StaticRateProvider ''USD''))" "''ZZZ''" "''USD''" "[]"
        "getRate (new_StaticRateProvider ''USD'')"]
    by (simp add: getRate_ZZZ_USD)
qed

end
